theory Spec2Isabelle
  imports Main
begin

section \<open>Python values and exceptions\<close>

text \<open>
  The module \<^verbatim>\<open>axlearn/cloud/gcp/job.py\<close> raises one exception of its own
  (\<^verbatim>\<open>NotImplementedError\<close> in \<^verbatim>\<open>GKEJob.__init__\<close>); every other failure
  comes out of a collaborator (the Kubernetes client, \<^verbatim>\<open>subprocess\<close>, the
  replicated-job builder) and is passed on unchanged.
\<close>

datatype py_error =
    NotImplementedError string
  | ApiException nat
  | CalledProcessError int
  | ExternalError string

text \<open>Python's \<^verbatim>\<open>if s:\<close> on an \<^verbatim>\<open>Optional[str]\<close>: \<^verbatim>\<open>None\<close> and \<^verbatim>\<open>""\<close> are false.\<close>

fun truthy :: "string option \<Rightarrow> bool" where
  "truthy None = False"
| "truthy (Some s) = (s \<noteq> [])"

section \<open>The JobSet document\<close>

text \<open>
  \<^verbatim>\<open>_build_jobset\<close> returns nested dictionaries with fixed keys, modelled as records;
  the annotations dictionary has keys chosen at run time and is a map.
\<close>

record Metadata =
  name :: string
  annotations :: "string \<rightharpoonup> string"

record FailurePolicy =
  maxRestarts :: int

record 'rj JobSetSpec =
  failurePolicy :: FailurePolicy
  replicatedJobs :: "'rj list"

record 'rj JobSet =
  metadata :: Metadata
  spec :: "'rj JobSetSpec"

section \<open>Job configurations\<close>

record AcceleratorConfig =
  instance_type :: string
  num_replicas :: int

text \<open>
  A bundler configuration has a class (\<^verbatim>\<open>klass\<close>); a wrapping bundler
  configuration also has an attribute \<^verbatim>\<open>inner\<close>, which may hold \<^verbatim>\<open>None\<close>.
\<close>

datatype 'k bundler_cfg =
    BundlerConfig 'k
  | WrapperConfig 'k "'k bundler_cfg option"

fun klass :: "'k bundler_cfg \<Rightarrow> 'k" where
  "klass (BundlerConfig k) = k"
| "klass (WrapperConfig k i) = k"

text \<open>The fields of \<^verbatim>\<open>Job.Config\<close> that this module reads.\<close>

record 'k Job_Config =
  name :: string
  command :: string
  max_tries :: int
  bundler :: "'k bundler_cfg option"

record 'k GCPJob_Config = "'k Job_Config" +
  project :: string
  zone :: string
  env_id :: "string option"
  service_account :: "string option"

record ('k, 'bc) GKEJob_Config = "'k GCPJob_Config" +
  builder :: 'bc
  accelerator :: AcceleratorConfig
  env_vars :: "(string \<times> string) list"
  namespace :: string
  enable_pre_provisioner :: "bool option"
  queue :: "string option"
  output_dir :: "string option"

text \<open>
  An instantiated replicated-job builder is called without arguments; it is modelled
  by what the call does: raise, or return the sequence of replicated job specs.
\<close>

type_synonym 'rj replicated_job_builder = "py_error + 'rj list"

record ('k, 'bc, 'bu, 'rj) GKEJob =
  config :: "('k, 'bc) GKEJob_Config"
  bundler_obj :: 'bu
  builder_obj :: "'rj replicated_job_builder"

section \<open>GKEJob\<close>

text \<open>
  \<^verbatim>\<open>getattr(bundler_cfg, "inner", bundler_cfg)\<close>: the attribute when the object has
  it, the object itself otherwise (\<^verbatim>\<open>None\<close> has no such attribute).
\<close>

fun getattr_inner :: "'k bundler_cfg option \<Rightarrow> 'k bundler_cfg option" where
  "getattr_inner None = None"
| "getattr_inner (Some (BundlerConfig k)) = Some (BundlerConfig k)"
| "getattr_inner (Some (WrapperConfig k i)) = i"

text \<open>
  \<^verbatim>\<open>GKEJob.__init__\<close>. Parameters stand for what lives outside the module:
  \<open>is_docker k\<close> is \<^verbatim>\<open>issubclass(k, BaseDockerBundler)\<close>, \<open>repr\<close> prints a bundler
  configuration, \<open>super_init\<close> is \<^verbatim>\<open>Job.__init__\<close> (it yields the instantiated
  bundler) and \<open>instantiate\<close> is \<^verbatim>\<open>cfg.builder.set(...).instantiate(bundler=...)\<close>.
\<close>

definition GKEJob_init ::
  "('k \<Rightarrow> bool) \<Rightarrow> ('k bundler_cfg option \<Rightarrow> string) \<Rightarrow>
   (('k, 'bc) GKEJob_Config \<Rightarrow> py_error + 'bu) \<Rightarrow>
   ('bc \<Rightarrow> string \<Rightarrow> string \<Rightarrow> AcceleratorConfig \<Rightarrow> string \<Rightarrow> (string \<times> string) list \<Rightarrow>
      string option \<Rightarrow> bool option \<Rightarrow> string option \<Rightarrow> 'bu \<Rightarrow>
      py_error + 'rj replicated_job_builder) \<Rightarrow>
   ('k, 'bc) GKEJob_Config \<Rightarrow> py_error + ('k, 'bc, 'bu, 'rj) GKEJob" where
  "GKEJob_init is_docker repr super_init instantiate cfg =
     (let bundler_cfg = bundler cfg;
          bundler_cfg = getattr_inner bundler_cfg;
          unsupported = (case bundler_cfg of None \<Rightarrow> True | Some b \<Rightarrow> \<not> is_docker (klass b))
      in if unsupported
         then Inl (NotImplementedError (''Only docker bundler supported, got: '' @ repr bundler_cfg))
         else (case super_init cfg of
                 Inl e \<Rightarrow> Inl e
               | Inr bu \<Rightarrow>
                   (case instantiate (builder cfg) (Job_Config.name cfg) (command cfg)
                           (accelerator cfg) (project cfg) (env_vars cfg) (service_account cfg)
                           (enable_pre_provisioner cfg) (output_dir cfg) bu of
                      Inl e \<Rightarrow> Inl e
                    | Inr b \<Rightarrow> Inr \<lparr>config = cfg, bundler_obj = bu, builder_obj = b\<rparr>)))"

abbreviation queue_name_key :: string where
  "queue_name_key \<equiv> ''kueue.x-k8s.io/queue-name''"

abbreviation exclusive_topology_key :: string where
  "exclusive_topology_key \<equiv> ''alpha.jobset.sigs.k8s.io/exclusive-topology''"

text \<open>\<^verbatim>\<open>GKEJob._build_jobset\<close>.\<close>

definition GKEJob_build_jobset :: "('k, 'bc, 'bu, 'rj) GKEJob \<Rightarrow> py_error + 'rj JobSet" where
  "GKEJob_build_jobset self =
     (let cfg = config self;
          annotations0 = Map.empty;
          annotations1 = (case queue cfg of
                            None \<Rightarrow> annotations0
                          | Some q \<Rightarrow> if q \<noteq> [] then annotations0(queue_name_key \<mapsto> q)
                                      else annotations0)
      in case builder_obj self of
           Inl e \<Rightarrow> Inl e
         | Inr rjs \<Rightarrow>
             Inr \<lparr>metadata = \<lparr>Metadata.name = Job_Config.name cfg, annotations = annotations1\<rparr>,
                  spec = \<lparr>failurePolicy = \<lparr>maxRestarts = max_tries cfg - 1\<rparr>,
                          replicatedJobs = rjs\<rparr>\<rparr>)"

text \<open>
  \<^verbatim>\<open>TPUGKEJob._build_jobset\<close>: the base document, its annotations updated in place
  with the exclusive-topology entry.
\<close>

definition TPUGKEJob_build_jobset :: "('k, 'bc, 'bu, 'rj) GKEJob \<Rightarrow> py_error + 'rj JobSet" where
  "TPUGKEJob_build_jobset self =
     (case GKEJob_build_jobset self of
        Inl e \<Rightarrow> Inl e
      | Inr jobset \<Rightarrow>
          Inr (jobset\<lparr>metadata := (metadata jobset)\<lparr>annotations :=
                 (annotations (metadata jobset))
                   (exclusive_topology_key \<mapsto> ''cloud.google.com/gke-nodepool'')\<rparr>\<rparr>))"

text \<open>\<^verbatim>\<open>GPUGKEJob\<close> overrides the builder class only; it inherits \<^verbatim>\<open>_build_jobset\<close>.\<close>

definition GPUGKEJob_build_jobset :: "('k, 'bc, 'bu, 'rj) GKEJob \<Rightarrow> py_error + 'rj JobSet" where
  "GPUGKEJob_build_jobset self = GKEJob_build_jobset self"

text \<open>
  \<^verbatim>\<open>GKEJob._execute\<close>. \<open>build_jobset\<close> is the \<^verbatim>\<open>_build_jobset\<close> of the object's
  class (the call is dispatched on \<^verbatim>\<open>self\<close>), \<open>api_kwargs\<close> is what
  \<^verbatim>\<open>custom_jobset_kwargs()\<close> returns and \<open>create\<close> is the Kubernetes client's
  \<^verbatim>\<open>create_namespaced_custom_object\<close>, acting on the cluster \<open>w\<close>.
\<close>

record ApiKwargs =
  group :: string
  version :: string
  plural :: string

record 'rj CustomObject = "'rj JobSet" +
  apiVersion :: string
  kind :: string

definition GKEJob_execute ::
  "(('k, 'bc, 'bu, 'rj) GKEJob \<Rightarrow> py_error + 'rj JobSet) \<Rightarrow> ApiKwargs \<Rightarrow>
   (string \<Rightarrow> 'rj CustomObject \<Rightarrow> ApiKwargs \<Rightarrow> 'w \<Rightarrow> (py_error + 'resp) \<times> 'w) \<Rightarrow>
   ('k, 'bc, 'bu, 'rj) GKEJob \<Rightarrow> 'w \<Rightarrow> (py_error + 'resp) \<times> 'w" where
  "GKEJob_execute build_jobset api_kwargs create self w =
     (let cfg = config self
      in case build_jobset self of
           Inl e \<Rightarrow> (Inl e, w)
         | Inr jobset \<Rightarrow>
             (let custom_object =
                    \<lparr>metadata = metadata jobset, spec = spec jobset,
                     apiVersion = group api_kwargs @ ''/'' @ version api_kwargs,
                     kind = ''JobSet''\<rparr>
              in create (namespace cfg) custom_object api_kwargs w))"

text \<open>\<^verbatim>\<open>GKEJob._delete\<close>: one call of \<^verbatim>\<open>delete_k8s_jobset\<close>.\<close>

definition GKEJob_delete ::
  "(string \<Rightarrow> string \<Rightarrow> 'w \<Rightarrow> (py_error + unit) \<times> 'w) \<Rightarrow>
   ('k, 'bc, 'bu, 'rj) GKEJob \<Rightarrow> 'w \<Rightarrow> (py_error + unit) \<times> 'w" where
  "GKEJob_delete delete_jobset self w =
     (let cfg = config self in delete_jobset (Job_Config.name cfg) (namespace cfg) w)"

section \<open>The cluster, as far as deletion needs it\<close>

text \<open>
  Modelled from the spec: the cluster and its delete call for custom objects, which
  the Kubernetes client reaches and this module does not contain. The cluster is the
  only store of job state (spec 3); here it is the set of (namespace, name) pairs of
  its JobSets. A delete request removes the named JobSet; for a JobSet that does not
  exist the cluster answers with an error (status 404).
\<close>

type_synonym cluster = "(string \<times> string) set"

definition delete_namespaced_custom_object ::
  "string \<Rightarrow> string \<Rightarrow> cluster \<Rightarrow> (py_error + unit) \<times> cluster" where
  "delete_namespaced_custom_object nm ns c =
     (if (ns, nm) \<in> c then (Inr (), c - {(ns, nm)}) else (Inl (ApiException 404), c))"

text \<open>
  Modelled from the spec: \<^verbatim>\<open>delete_k8s_jobset\<close> of \<^verbatim>\<open>axlearn.cloud.gcp.utils\<close>, which
  \<^verbatim>\<open>GKEJob._delete\<close> calls and which is not part of this module. The spec (4.4, 7):
  delete issues a delete request for the named JobSet; deleting a JobSet that does
  not exist is not fatal and is treated as success; any other deletion error is
  surfaced.
\<close>

definition delete_k8s_jobset ::
  "(string \<Rightarrow> string \<Rightarrow> 'w \<Rightarrow> (py_error + unit) \<times> 'w) \<Rightarrow>
   string \<Rightarrow> string \<Rightarrow> 'w \<Rightarrow> (py_error + unit) \<times> 'w" where
  "delete_k8s_jobset api_delete nm ns w =
     (case api_delete nm ns w of
        (Inl e, w') \<Rightarrow> if e = ApiException 404 then (Inr (), w') else (Inl e, w')
      | (Inr u, w') \<Rightarrow> (Inr u, w'))"

section \<open>Escaping a command for gcloud\<close>

abbreviation sq :: char where "sq \<equiv> CHR 0x27"
abbreviation dq :: char where "dq \<equiv> CHR 0x22"
abbreviation bs :: char where "bs \<equiv> CHR 0x5C"
abbreviation dollar :: char where "dollar \<equiv> CHR 0x24"
abbreviation backtick :: char where "backtick \<equiv> CHR 0x60"
abbreviation newline :: char where "newline \<equiv> CHR 0x0A"

text \<open>
  \<^verbatim>\<open>shlex.quote\<close> of the standard library: a string of characters of
  \<^verbatim>\<open>[a-zA-Z0-9_@%+=:,./-]\<close> is left alone, the empty string becomes \<^verbatim>\<open>''\<close>, any
  other string is put in single quotes, each single quote of it written \<^verbatim>\<open>'"'"'\<close>.
\<close>

definition safe_char :: "char \<Rightarrow> bool" where
  "safe_char c =
     (c \<in> set ''abcdefghijklmnopqrstuvwxyzABCDEFGHIJKLMNOPQRSTUVWXYZ0123456789_@%+=:,./-'')"

text \<open>\<^verbatim>\<open>s.replace(old, new)\<close> for a one-character \<^verbatim>\<open>old\<close>.\<close>

fun str_replace :: "char \<Rightarrow> string \<Rightarrow> string \<Rightarrow> string" where
  "str_replace old new [] = []"
| "str_replace old new (c # cs) = (if c = old then new else [c]) @ str_replace old new cs"

definition shlex_quote :: "string \<Rightarrow> string" where
  "shlex_quote s =
     (if s = [] then [sq, sq]
      else if list_all safe_char s then s
      else [sq] @ str_replace sq [sq, dq, sq, dq, sq] s @ [sq])"

text \<open>\<^verbatim>\<open>_prepare_cmd_for_gcloud_ssh\<close>.\<close>

definition prepare_cmd_for_gcloud_ssh :: "string \<Rightarrow> string" where
  "prepare_cmd_for_gcloud_ssh cmd =
     (let cmd1 = shlex_quote cmd;
          cmd2 = str_replace dq [bs, dq] cmd1;
          cmd3 = str_replace dollar [bs, dollar] cmd2
      in cmd3)"

section \<open>CPUJob\<close>

datatype py_value = PyNone | PyBool bool | PyInt int | PyStr string

text \<open>\<^verbatim>\<open>dict.setdefault\<close>, returning the dictionary.\<close>

definition setdefault :: "('a \<rightharpoonup> 'b) \<Rightarrow> 'a \<Rightarrow> 'b \<Rightarrow> ('a \<rightharpoonup> 'b)" where
  "setdefault d k v = (case d k of None \<Rightarrow> d(k \<mapsto> v) | Some u \<Rightarrow> d)"

text \<open>\<^verbatim>\<open>_prepare_subprocess_kwargs\<close>.\<close>

definition prepare_subprocess_kwargs :: "(string \<rightharpoonup> py_value) \<Rightarrow> (string \<rightharpoonup> py_value)" where
  "prepare_subprocess_kwargs kwargs =
     (let kwargs1 = setdefault kwargs ''text'' (PyBool True);
          kwargs2 = setdefault kwargs1 ''check'' (PyBool True);
          kwargs3 = setdefault kwargs2 ''capture_output''
                      (PyBool (kwargs2 ''stdout'' = None \<and> kwargs2 ''stderr'' = None))
      in kwargs3)"

text \<open>
  The command line that \<^verbatim>\<open>CPUJob._execute_remote_cmd\<close> hands to
  \<^verbatim>\<open>subprocess_run\<close>: the value of its local \<^verbatim>\<open>cmd\<close> after the last assignment.
\<close>

definition remote_cmd_line :: "('k, 'z) GCPJob_Config_scheme \<Rightarrow> string \<Rightarrow> string option \<Rightarrow> string" where
  "remote_cmd_line cfg cmd detached_session =
     (let cmd1 = prepare_cmd_for_gcloud_ssh (''pushd /root && '' @ cmd);
          cmd2 = ''sudo -i bash -c '' @ cmd1;
          cmd3 = (case detached_session of
                    None \<Rightarrow> cmd2
                  | Some s \<Rightarrow> if s \<noteq> [] then ''sudo screen -dmS '' @ s @ '' '' @ cmd2 else cmd2)
      in ''gcloud compute -q ssh '' @ Job_Config.name cfg @ '' '' @
         ''--project='' @ project cfg @ '' '' @
         ''--zone='' @ zone cfg @ '' '' @
         ''--command='' @ [dq] @ cmd3 @ [dq])"

text \<open>
  \<^verbatim>\<open>CPUJob._execute_remote_cmd\<close>; \<open>subprocess_run\<close> runs a command line on the
  world \<open>w\<close> and returns the completed process or raises.
\<close>

definition CPUJob_execute_remote_cmd ::
  "(string \<Rightarrow> (string \<rightharpoonup> py_value) \<Rightarrow> 'w \<Rightarrow> (py_error + 'proc) \<times> 'w) \<Rightarrow>
   ('k, 'z) GCPJob_Config_scheme \<Rightarrow> string \<Rightarrow> string option \<Rightarrow> (string \<rightharpoonup> py_value) \<Rightarrow>
   'w \<Rightarrow> (py_error + 'proc) \<times> 'w" where
  "CPUJob_execute_remote_cmd subprocess_run cfg cmd detached_session kwargs w =
     subprocess_run (remote_cmd_line cfg cmd detached_session)
       (prepare_subprocess_kwargs kwargs) w"

text \<open>
  \<^verbatim>\<open>CPUJob._execute\<close>: the body ends without a \<^verbatim>\<open>return\<close>, so the value is
  Python's \<^verbatim>\<open>None\<close> (here \<open>None\<close>; a returned process would be \<open>Some proc\<close>).
\<close>

definition CPUJob_execute ::
  "(string \<Rightarrow> (string \<rightharpoonup> py_value) \<Rightarrow> 'w \<Rightarrow> (py_error + 'proc) \<times> 'w) \<Rightarrow>
   ('k, 'z) GCPJob_Config_scheme \<Rightarrow> 'w \<Rightarrow> (py_error + 'proc option) \<times> 'w" where
  "CPUJob_execute subprocess_run cfg w =
     (case CPUJob_execute_remote_cmd subprocess_run cfg (command cfg) None Map.empty w of
        (Inl e, w') \<Rightarrow> (Inl e, w')
      | (Inr proc, w') \<Rightarrow> (Inr None, w'))"

section \<open>docker_command\<close>

text \<open>\<^verbatim>\<open>sep.join(xs)\<close>.\<close>

fun join :: "string \<Rightarrow> string list \<Rightarrow> string" where
  "join sep [] = []"
| "join sep [x] = x"
| "join sep (x # y # ys) = x @ sep @ join sep (y # ys)"

text \<open>\<^verbatim>\<open>x or []\<close> on an optional sequence or dictionary.\<close>

fun or_empty :: "'a list option \<Rightarrow> 'a list" where
  "or_empty None = []"
| "or_empty (Some xs) = xs"

text \<open>
  \<^verbatim>\<open>docker_command\<close>. The volumes dictionary is the list of its items in
  insertion order, which is the order \<^verbatim>\<open>items()\<close> yields.
\<close>

definition docker_command ::
  "string \<Rightarrow> string \<Rightarrow> string option \<Rightarrow> string list option \<Rightarrow>
   (string \<times> string) list option \<Rightarrow> string list option \<Rightarrow> string" where
  "docker_command cmd image_name detached_session env volumes extra_docker_flags =
     (let cmd1 = prepare_cmd_for_gcloud_ssh (''pushd /root && '' @ cmd);
          cmd2 = ''/bin/bash -c '' @ cmd1;
          env1 = join '' '' (map (\<lambda>e. ''-e '' @ e) (or_empty env));
          volumes1 = join '' '' (map (\<lambda>(src, dst). ''-v '' @ src @ '':'' @ dst) (or_empty volumes));
          extra_docker_flags1 = join '' '' (or_empty extra_docker_flags);
          detached = (case detached_session of
                        None \<Rightarrow> []
                      | Some s \<Rightarrow> if s \<noteq> [] then ''-d --name='' @ s else [])
      in ''docker run --rm --privileged -u root --network=host '' @ detached @ '' '' @ env1 @
         '' '' @ volumes1 @ '' '' @ extra_docker_flags1 @ '' '' @ image_name @ '' '' @ cmd2)"

section \<open>Shell quoting\<close>

text \<open>
  What a POSIX shell makes of one word (Shell Command Language, 2.2 Quoting), as far
  as quoting alone decides it. Between single quotes every character is literal.
  Between double quotes a backslash quotes a following dollar sign, backquote,
  double quote or backslash and joins lines at a newline; elsewhere it is literal;
  an unquoted dollar sign or backquote starts an expansion. Outside quotes a
  backslash quotes the next character, and only the characters that
  \<^verbatim>\<open>shlex.quote\<close> leaves alone are taken as literal. The result is the word's
  value, or \<open>None\<close> when a quote is left open, an expansion starts or an unquoted
  character may have a meaning of its own.
\<close>

datatype quoting = Unquoted | SingleQuoted | DoubleQuoted

fun sh_word :: "quoting \<Rightarrow> string \<Rightarrow> string option" where
  "sh_word Unquoted [] = Some []"
| "sh_word SingleQuoted [] = None"
| "sh_word DoubleQuoted [] = None"
| "sh_word Unquoted (c # cs) =
     (if c = sq then sh_word SingleQuoted cs
      else if c = dq then sh_word DoubleQuoted cs
      else if c = bs then
        (case cs of
           [] \<Rightarrow> None
         | d # ds \<Rightarrow> if d = newline then sh_word Unquoted ds
                     else map_option ((#) d) (sh_word Unquoted ds))
      else if safe_char c then map_option ((#) c) (sh_word Unquoted cs)
      else None)"
| "sh_word SingleQuoted (c # cs) =
     (if c = sq then sh_word Unquoted cs
      else map_option ((#) c) (sh_word SingleQuoted cs))"
| "sh_word DoubleQuoted (c # cs) =
     (if c = dq then sh_word Unquoted cs
      else if c = bs then
        (case cs of
           [] \<Rightarrow> None
         | d # ds \<Rightarrow> if d = dollar \<or> d = backtick \<or> d = dq \<or> d = bs
                     then map_option ((#) d) (sh_word DoubleQuoted ds)
                     else if d = newline then sh_word DoubleQuoted ds
                     else map_option ((#) c) (sh_word DoubleQuoted cs))
      else if c = dollar \<or> c = backtick then None
      else map_option ((#) c) (sh_word DoubleQuoted cs))"

text \<open>
  The way of an escaped command: the local shell reads it between the double quotes
  of \<^verbatim>\<open>--command="..."\<close>, and the remote shell reads the value as one word.
\<close>

definition shell_roundtrip :: "string \<Rightarrow> string option" where
  "shell_roundtrip cmd =
     (case sh_word DoubleQuoted (prepare_cmd_for_gcloud_ssh cmd @ [dq]) of
        None \<Rightarrow> None
      | Some v \<Rightarrow> sh_word Unquoted v)"

section \<open>Command lines as fields\<close>

text \<open>
  A command line cut into fields at spaces, empty fields dropped: what the shell
  does with text that holds no quoting. \<open>fields cur s\<close> has read \<open>cur\<close> of the
  current field and goes on with \<open>s\<close>.
\<close>

fun fields :: "string \<Rightarrow> string \<Rightarrow> string list" where
  "fields cur [] = (if cur = [] then [] else [cur])"
| "fields cur (c # cs) =
     (if c = CHR '' '' then (if cur = [] then [] else [cur]) @ fields [] cs
      else fields (cur @ [c]) cs)"

text \<open>A string that is one field: not empty and without a space.\<close>

definition plain_word :: "string \<Rightarrow> bool" where
  "plain_word s = (s \<noteq> [] \<and> CHR '' '' \<notin> set s)"

text \<open>
  The line of \<^verbatim>\<open>docker_command\<close> up to the image name, that is its format string
  without the last placeholder.
\<close>

definition docker_run_head ::
  "string \<Rightarrow> string option \<Rightarrow> string list option \<Rightarrow>
   (string \<times> string) list option \<Rightarrow> string list option \<Rightarrow> string" where
  "docker_run_head image_name detached_session env volumes extra_docker_flags =
     ''docker run --rm --privileged -u root --network=host '' @
     (case detached_session of None \<Rightarrow> [] | Some s \<Rightarrow> if s \<noteq> [] then ''-d --name='' @ s else []) @
     '' '' @ join '' '' (map (\<lambda>e. ''-e '' @ e) (or_empty env)) @
     '' '' @ join '' '' (map (\<lambda>(src, dst). ''-v '' @ src @ '':'' @ dst) (or_empty volumes)) @
     '' '' @ join '' '' (or_empty extra_docker_flags) @
     '' '' @ image_name"

section \<open>Example configurations\<close>

text \<open>
  The jobs of the end-to-end scenarios: a name, a retry count and an optional queue,
  with a builder that returns one replicated job. Bundler classes are named by
  strings; \<open>example_is_docker\<close> lists the subclasses of \<^verbatim>\<open>BaseDockerBundler\<close>.
\<close>

definition example_cfg ::
  "string \<Rightarrow> int \<Rightarrow> string option \<Rightarrow> string bundler_cfg option \<Rightarrow>
   (string, unit) GKEJob_Config" where
  "example_cfg nm tries q b =
     \<lparr>Job_Config.name = nm, command = ''python3 -m train'', max_tries = tries, bundler = b,
      project = ''my-project'', zone = ''us-east5-a'', env_id = None, service_account = None,
      builder = (), accelerator = \<lparr>instance_type = ''tpu-v5p-8'', num_replicas = 1\<rparr>,
      env_vars = [], namespace = ''default'', enable_pre_provisioner = None,
      queue = q, output_dir = None\<rparr>"

definition example_job ::
  "string \<Rightarrow> int \<Rightarrow> string option \<Rightarrow> (string, unit, unit, string) GKEJob" where
  "example_job nm tries q =
     \<lparr>config = example_cfg nm tries q (Some (BundlerConfig ''ArtifactRegistryBundler'')),
      bundler_obj = (), builder_obj = Inr [''replicated-job'']\<rparr>"

definition example_is_docker :: "string \<Rightarrow> bool" where
  "example_is_docker k =
     (k \<in> set [''BaseDockerBundler'', ''DockerBundler'', ''ArtifactRegistryBundler'',
               ''CloudBuildBundler''])"

text \<open>
  Stand-ins for the collaborators: a printer of bundler configurations, a
  \<^verbatim>\<open>Job.__init__\<close> and a builder instantiation that succeed, a CPU job on the VM
  \<^verbatim>\<open>vm1\<close>, a \<^verbatim>\<open>subprocess_run\<close> that records the command line and returns exit
  code 0, the JobSet API coordinates, and a create call that answers 409 for a
  name already in the cluster.
\<close>

definition example_repr :: "string bundler_cfg option \<Rightarrow> string" where
  "example_repr b = (case b of None \<Rightarrow> ''None'' | Some c \<Rightarrow> klass c)"

definition example_super_init :: "(string, unit) GKEJob_Config \<Rightarrow> py_error + unit" where
  "example_super_init cfg = Inr ()"

definition example_instantiate ::
  "unit \<Rightarrow> string \<Rightarrow> string \<Rightarrow> AcceleratorConfig \<Rightarrow> string \<Rightarrow> (string \<times> string) list \<Rightarrow>
   string option \<Rightarrow> bool option \<Rightarrow> string option \<Rightarrow> unit \<Rightarrow>
   py_error + string replicated_job_builder" where
  "example_instantiate b nm cmd acc proj envs sa pre out bu = Inr (Inr [''replicated-job''])"

definition example_vm :: "string GCPJob_Config" where
  "example_vm =
     \<lparr>Job_Config.name = ''vm1'', command = ''echo hi'', max_tries = 1, bundler = None,
      project = ''my-project'', zone = ''us-east5-a'', env_id = None, service_account = None\<rparr>"

definition example_subprocess_run ::
  "string \<Rightarrow> (string \<rightharpoonup> py_value) \<Rightarrow> string list \<Rightarrow> (py_error + int) \<times> string list" where
  "example_subprocess_run cmd kwargs w = (Inr 0, w @ [cmd])"

definition example_api_kwargs :: ApiKwargs where
  "example_api_kwargs =
     \<lparr>group = ''jobset.x-k8s.io'', version = ''v1alpha2'', plural = ''jobsets''\<rparr>"

definition example_create ::
  "string \<Rightarrow> string CustomObject \<Rightarrow> ApiKwargs \<Rightarrow> cluster \<Rightarrow>
   (py_error + string CustomObject) \<times> cluster" where
  "example_create ns body api c =
     (if (ns, Metadata.name (metadata body)) \<in> c then (Inl (ApiException 409), c)
      else (Inr body, insert (ns, Metadata.name (metadata body)) c))"

section \<open>Properties of the JobSet document\<close>

lemma build_jobset_Inr:
  "builder_obj self = Inr rjs \<Longrightarrow>
   GKEJob_build_jobset self =
     Inr \<lparr>metadata = \<lparr>Metadata.name = Job_Config.name (config self),
                      annotations = (case queue (config self) of None \<Rightarrow> Map.empty
                         | Some q \<Rightarrow> if q \<noteq> [] then [queue_name_key \<mapsto> q] else Map.empty)\<rparr>,
          spec = \<lparr>failurePolicy = \<lparr>maxRestarts = max_tries (config self) - 1\<rparr>,
                  replicatedJobs = rjs\<rparr>\<rparr>"
  by (simp add: GKEJob_build_jobset_def Let_def)

text \<open>
  Claim C1. For every job configuration with \<open>max_tries \<ge> 1\<close>, the document returned
  by \<^verbatim>\<open>_build_jobset\<close> (of the base class and of the TPU and GPU variants) has
  \<open>spec.failurePolicy.maxRestarts = max_tries - 1\<close>; the document is returned
  whenever the builder returns its replicated jobs.
\<close>

theorem build_jobset_maxRestarts:
  assumes "1 \<le> max_tries (config self)" and "builder_obj self = Inr rjs"
  shows "\<exists>base tpu gpu.
           GKEJob_build_jobset self = Inr base \<and>
           TPUGKEJob_build_jobset self = Inr tpu \<and>
           GPUGKEJob_build_jobset self = Inr gpu \<and>
           maxRestarts (failurePolicy (spec base)) = max_tries (config self) - 1 \<and>
           maxRestarts (failurePolicy (spec tpu)) = max_tries (config self) - 1 \<and>
           maxRestarts (failurePolicy (spec gpu)) = max_tries (config self) - 1 \<and>
           0 \<le> maxRestarts (failurePolicy (spec base))"
  using assms
  by (simp add: build_jobset_Inr TPUGKEJob_build_jobset_def GPUGKEJob_build_jobset_def)

theorem build_jobset_maxRestarts_witness:
  "(1::int) \<le> 3 \<and>
   (\<exists>base tpu gpu.
      GKEJob_build_jobset (example_job ''job1'' 3 None) = Inr base \<and>
      TPUGKEJob_build_jobset (example_job ''job1'' 3 None) = Inr tpu \<and>
      GPUGKEJob_build_jobset (example_job ''job1'' 3 None) = Inr gpu \<and>
      maxRestarts (failurePolicy (spec base)) = 2 \<and>
      maxRestarts (failurePolicy (spec tpu)) = 2 \<and>
      maxRestarts (failurePolicy (spec gpu)) = 2 \<and>
      0 \<le> maxRestarts (failurePolicy (spec base)))"
  using build_jobset_maxRestarts [of "example_job ''job1'' 3 None" "[''replicated-job'']"]
  by (simp add: example_job_def example_cfg_def GKEJob_build_jobset_def
        TPUGKEJob_build_jobset_def GPUGKEJob_build_jobset_def)

text \<open>
  Claim C2. The annotations of the document returned by \<^verbatim>\<open>_build_jobset\<close> hold the
  key \<^verbatim>\<open>kueue.x-k8s.io/queue-name\<close> exactly when a non-empty queue name is
  configured, and its value is then the configured queue name; with no queue
  (\<^verbatim>\<open>None\<close> or the empty string) the key is absent.
\<close>

theorem build_jobset_queue_annotation:
  assumes "builder_obj self = Inr rjs"
  shows "\<exists>doc. GKEJob_build_jobset self = Inr doc \<and>
           annotations (metadata doc) queue_name_key =
             (case queue (config self) of
                None \<Rightarrow> None
              | Some q \<Rightarrow> if q \<noteq> [] then Some q else None) \<and>
           (queue_name_key \<in> dom (annotations (metadata doc)) \<longleftrightarrow> truthy (queue (config self)))"
  using assms by (auto simp: build_jobset_Inr split: option.splits)

theorem build_jobset_queue_annotation_witness:
  "(\<exists>doc. GKEJob_build_jobset (example_job ''job2'' 1 (Some ''q1'')) = Inr doc \<and>
          annotations (metadata doc) queue_name_key = Some ''q1'') \<and>
   (\<exists>doc. GKEJob_build_jobset (example_job ''job1'' 3 None) = Inr doc \<and>
          annotations (metadata doc) queue_name_key = None)"
  using build_jobset_queue_annotation [of "example_job ''job2'' 1 (Some ''q1'')" "[''replicated-job'']"]
        build_jobset_queue_annotation [of "example_job ''job1'' 3 None" "[''replicated-job'']"]
  by (simp add: example_job_def example_cfg_def GKEJob_build_jobset_def)

text \<open>
  Claim C3. The document of the TPU variant always holds the annotation
  \<^verbatim>\<open>alpha.jobset.sigs.k8s.io/exclusive-topology\<close> on top of the base document: every
  base annotation is kept (the queue annotation when set), the name, the failure
  policy and the replicated jobs are unchanged. The GPU variant builds the base
  document, which never holds that key.
\<close>

theorem tpu_gpu_exclusive_topology:
  assumes "builder_obj self = Inr rjs"
  shows "\<exists>base tpu gpu.
           GKEJob_build_jobset self = Inr base \<and>
           TPUGKEJob_build_jobset self = Inr tpu \<and>
           GPUGKEJob_build_jobset self = Inr gpu \<and>
           annotations (metadata tpu) exclusive_topology_key = Some ''cloud.google.com/gke-nodepool'' \<and>
           annotations (metadata base) \<subseteq>\<^sub>m annotations (metadata tpu) \<and>
           dom (annotations (metadata tpu)) = insert exclusive_topology_key (dom (annotations (metadata base))) \<and>
           annotations (metadata tpu) queue_name_key = annotations (metadata base) queue_name_key \<and>
           Metadata.name (metadata tpu) = Metadata.name (metadata base) \<and>
           Metadata.name (metadata tpu) = Job_Config.name (config self) \<and>
           spec tpu = spec base \<and>
           replicatedJobs (spec tpu) = rjs \<and>
           gpu = base \<and>
           annotations (metadata gpu) exclusive_topology_key = None"
  using assms
  by (auto simp: build_jobset_Inr TPUGKEJob_build_jobset_def GPUGKEJob_build_jobset_def map_le_def
           split: option.splits)

theorem tpu_gpu_exclusive_topology_witness:
  "\<exists>tpu gpu.
     TPUGKEJob_build_jobset (example_job ''job1'' 3 None) = Inr tpu \<and>
     GPUGKEJob_build_jobset (example_job ''job2'' 1 (Some ''q1'')) = Inr gpu \<and>
     annotations (metadata tpu) exclusive_topology_key = Some ''cloud.google.com/gke-nodepool'' \<and>
     annotations (metadata tpu) queue_name_key = None \<and>
     maxRestarts (failurePolicy (spec tpu)) = 2 \<and>
     length (replicatedJobs (spec tpu)) = 1 \<and>
     annotations (metadata gpu) exclusive_topology_key = None \<and>
     annotations (metadata gpu) queue_name_key = Some ''q1'' \<and>
     maxRestarts (failurePolicy (spec gpu)) = 0"
  using tpu_gpu_exclusive_topology [of "example_job ''job1'' 3 None" "[''replicated-job'']"]
        tpu_gpu_exclusive_topology [of "example_job ''job2'' 1 (Some ''q1'')" "[''replicated-job'']"]
  by (simp add: example_job_def example_cfg_def GKEJob_build_jobset_def
        TPUGKEJob_build_jobset_def GPUGKEJob_build_jobset_def)

text \<open>
  Claim C4 says that building the document fails when \<open>max_tries < 1\<close>. The code has
  no such check: with \<open>max_tries = 0\<close> the document is returned, with
  \<open>maxRestarts = -1\<close>.
\<close>

theorem build_jobset_zero_tries_counterexample:
  "max_tries (config (example_job ''job0'' 0 None)) < 1 \<and>
   GKEJob_build_jobset (example_job ''job0'' 0 None) =
     Inr \<lparr>metadata = \<lparr>Metadata.name = ''job0'', annotations = Map.empty\<rparr>,
          spec = \<lparr>failurePolicy = \<lparr>maxRestarts = - 1\<rparr>, replicatedJobs = [''replicated-job'']\<rparr>\<rparr>"
  by (simp add: example_job_def example_cfg_def GKEJob_build_jobset_def)

text \<open>
  Claim C4, amended. For every job configuration with \<open>max_tries < 1\<close>,
  \<^verbatim>\<open>_build_jobset\<close> raises no error of its own: whenever the builder returns its
  replicated jobs the document is returned, with the negative
  \<open>maxRestarts = max_tries - 1\<close>.
\<close>

theorem build_jobset_no_max_tries_check:
  assumes "max_tries (config self) < 1" and "builder_obj self = Inr rjs"
  shows "\<exists>doc. GKEJob_build_jobset self = Inr doc \<and>
           maxRestarts (failurePolicy (spec doc)) = max_tries (config self) - 1 \<and>
           maxRestarts (failurePolicy (spec doc)) < 0"
  using assms by (simp add: build_jobset_Inr)

theorem build_jobset_no_max_tries_check_witness:
  "(0::int) < 1 \<and>
   (\<exists>doc. GKEJob_build_jobset (example_job ''job0'' 0 None) = Inr doc \<and>
          maxRestarts (failurePolicy (spec doc)) = - 1)"
  using build_jobset_no_max_tries_check [of "example_job ''job0'' 0 None" "[''replicated-job'']"]
  by (simp add: example_job_def example_cfg_def GKEJob_build_jobset_def)

section \<open>Construction\<close>

text \<open>
  Claim C7. Constructing a \<^verbatim>\<open>GKEJob\<close> whose bundler configuration (after
  \<^verbatim>\<open>inner\<close> is looked through) is missing or is not of a subclass of
  \<^verbatim>\<open>BaseDockerBundler\<close> raises at construction time, before \<^verbatim>\<open>Job.__init__\<close> and the
  builder are reached, whatever they would do; construction never succeeds with
  such a bundler. The exception the code raises for this configuration error is
  \<^verbatim>\<open>NotImplementedError\<close>.
\<close>

theorem GKEJob_init_rejects_unsupported_bundler:
  "((case getattr_inner (bundler cfg) of None \<Rightarrow> True | Some b \<Rightarrow> \<not> is_docker (klass b)) \<longrightarrow>
      GKEJob_init is_docker repr super_init instantiate cfg =
        Inl (NotImplementedError
               (''Only docker bundler supported, got: '' @ repr (getattr_inner (bundler cfg))))) \<and>
   (\<forall>job. GKEJob_init is_docker repr super_init instantiate cfg = Inr job \<longrightarrow>
      (\<exists>b. getattr_inner (bundler cfg) = Some b \<and> is_docker (klass b)))"
  by (auto simp: GKEJob_init_def Let_def split: option.splits sum.splits if_splits)

theorem GKEJob_init_rejects_unsupported_bundler_witness:
  "GKEJob_init example_is_docker example_repr example_super_init example_instantiate
     (example_cfg ''job1'' 3 None None) =
     Inl (NotImplementedError ''Only docker bundler supported, got: None'') \<and>
   GKEJob_init example_is_docker example_repr example_super_init example_instantiate
     (example_cfg ''job1'' 3 None (Some (BundlerConfig ''GCSTarBundler''))) =
     Inl (NotImplementedError ''Only docker bundler supported, got: GCSTarBundler'') \<and>
   GKEJob_init example_is_docker example_repr example_super_init example_instantiate
     (example_cfg ''job1'' 3 None (Some (WrapperConfig ''ArtifactRegistryBundler'' None))) =
     Inl (NotImplementedError ''Only docker bundler supported, got: None'')"
  using GKEJob_init_rejects_unsupported_bundler
          [where cfg = "example_cfg ''job1'' 3 None None" and is_docker = example_is_docker
             and repr = example_repr and super_init = example_super_init
             and instantiate = example_instantiate]
        GKEJob_init_rejects_unsupported_bundler
          [where cfg = "example_cfg ''job1'' 3 None (Some (BundlerConfig ''GCSTarBundler''))"
             and is_docker = example_is_docker and repr = example_repr
             and super_init = example_super_init and instantiate = example_instantiate]
        GKEJob_init_rejects_unsupported_bundler
          [where cfg = "example_cfg ''job1'' 3 None (Some (WrapperConfig ''ArtifactRegistryBundler'' None))"
             and is_docker = example_is_docker and repr = example_repr
             and super_init = example_super_init and instantiate = example_instantiate]
  by (simp add: example_cfg_def example_is_docker_def example_repr_def)

section \<open>Deletion\<close>

text \<open>
  Claim C6. Deleting a job whose JobSet is not in the cluster returns successfully
  and leaves the cluster as it is; after any delete a second delete of the same name
  succeeds, so repeated deletion is idempotent.
\<close>

theorem delete_missing_jobset_succeeds:
  "((namespace (config self), Job_Config.name (config self)) \<notin> c \<longrightarrow>
      GKEJob_delete (delete_k8s_jobset delete_namespaced_custom_object) self c = (Inr (), c)) \<and>
   (\<exists>c'. GKEJob_delete (delete_k8s_jobset delete_namespaced_custom_object) self c = (Inr (), c') \<and>
         GKEJob_delete (delete_k8s_jobset delete_namespaced_custom_object) self c' = (Inr (), c'))"
proof (cases "(namespace (config self), Job_Config.name (config self)) \<in> c")
  case True
  then show ?thesis
    by (simp add: GKEJob_delete_def delete_k8s_jobset_def delete_namespaced_custom_object_def Let_def)
next
  case False
  then show ?thesis
    by (simp add: GKEJob_delete_def delete_k8s_jobset_def delete_namespaced_custom_object_def Let_def)
qed

theorem delete_missing_jobset_succeeds_witness:
  "(''default'', ''job1'') \<notin> ({} :: cluster) \<and>
   GKEJob_delete (delete_k8s_jobset delete_namespaced_custom_object)
     (example_job ''job1'' 3 None) {} = (Inr (), {})"
  using delete_missing_jobset_succeeds [where self = "example_job ''job1'' 3 None" and c = "{}"]
  by (simp add: example_job_def example_cfg_def)

section \<open>Execution\<close>

text \<open>
  Claim C10. \<^verbatim>\<open>CPUJob._execute\<close> runs the remote command (the world is the one
  \<^verbatim>\<open>subprocess_run\<close> leaves) and returns \<^verbatim>\<open>None\<close>, never the completed process: when
  the command succeeds the value is \<^verbatim>\<open>None\<close>, when it raises the exception is passed
  on. \<^verbatim>\<open>GKEJob._execute\<close> returns what the cluster's create call returns.
\<close>

theorem CPUJob_execute_returns_None:
  "(\<forall>proc. fst (CPUJob_execute subprocess_run cfg w) \<noteq> Inr (Some proc)) \<and>
   (\<forall>proc w'. CPUJob_execute_remote_cmd subprocess_run cfg (command cfg) None Map.empty w = (Inr proc, w')
        \<longrightarrow> CPUJob_execute subprocess_run cfg w = (Inr None, w')) \<and>
   (\<forall>e w'. CPUJob_execute_remote_cmd subprocess_run cfg (command cfg) None Map.empty w = (Inl e, w')
        \<longrightarrow> CPUJob_execute subprocess_run cfg w = (Inl e, w')) \<and>
   snd (CPUJob_execute subprocess_run cfg w) =
     snd (subprocess_run (remote_cmd_line cfg (command cfg) None)
            (prepare_subprocess_kwargs Map.empty) w) \<and>
   (\<forall>jobset. build_jobset self = Inr jobset \<longrightarrow>
      GKEJob_execute build_jobset api_kwargs create self c =
        create (namespace (config self))
          \<lparr>metadata = metadata jobset, spec = spec jobset,
           apiVersion = group api_kwargs @ ''/'' @ version api_kwargs, kind = ''JobSet''\<rparr>
          api_kwargs c)"
  by (auto simp: CPUJob_execute_def CPUJob_execute_remote_cmd_def GKEJob_execute_def Let_def
           split: prod.splits sum.splits)

theorem CPUJob_execute_returns_None_witness:
  "CPUJob_execute example_subprocess_run example_vm [] =
     (Inr None, [remote_cmd_line example_vm ''echo hi'' None]) \<and>
   fst (GKEJob_execute GPUGKEJob_build_jobset example_api_kwargs example_create
          (example_job ''job2'' 1 (Some ''q1'')) {}) =
     Inr \<lparr>metadata = \<lparr>Metadata.name = ''job2'', annotations = [queue_name_key \<mapsto> ''q1'']\<rparr>,
          spec = \<lparr>failurePolicy = \<lparr>maxRestarts = 0\<rparr>, replicatedJobs = [''replicated-job'']\<rparr>,
          apiVersion = ''jobset.x-k8s.io/v1alpha2'', kind = ''JobSet''\<rparr>"
  using CPUJob_execute_returns_None
          [where subprocess_run = example_subprocess_run and cfg = example_vm and w = "[]"
             and build_jobset = GPUGKEJob_build_jobset
             and self = "example_job ''job2'' 1 (Some ''q1'')"
             and api_kwargs = example_api_kwargs and create = example_create and c = "{}"]
  by (simp add: example_subprocess_run_def example_vm_def example_job_def example_cfg_def
        example_api_kwargs_def example_create_def CPUJob_execute_remote_cmd_def
        GPUGKEJob_build_jobset_def GKEJob_build_jobset_def)

section \<open>Command lines\<close>

text \<open>
  Claim C8. The command line of a CPU job is
  \<^verbatim>\<open>gcloud compute -q ssh <name> --project=<project> --zone=<zone> --command="<cmd>"\<close>,
  where \<^verbatim>\<open><cmd>\<close> runs the escaped job command under \<^verbatim>\<open>sudo -i bash -c\<close> and, when a
  non-empty session name is given, under \<^verbatim>\<open>sudo screen -dmS <session>\<close>. For
  \<^verbatim>\<open>echo hi\<close> and the session \<^verbatim>\<open>sess\<close> the line holds \<^verbatim>\<open>screen -dmS sess\<close> and the
  quoted payload, which the local shell hands on unchanged and the remote shell
  reads back as the command.
\<close>

theorem remote_cmd_line_form:
  "remote_cmd_line cfg cmd detached_session =
     ''gcloud compute -q ssh '' @ Job_Config.name cfg @
     '' --project='' @ project cfg @ '' --zone='' @ zone cfg @
     '' --command='' @ [dq] @
       (case detached_session of
          None \<Rightarrow> []
        | Some s \<Rightarrow> if s \<noteq> [] then ''sudo screen -dmS '' @ s @ '' '' else []) @
       ''sudo -i bash -c '' @ prepare_cmd_for_gcloud_ssh (''pushd /root && '' @ cmd) @ [dq] \<and>
   CPUJob_execute_remote_cmd subprocess_run cfg cmd detached_session kwargs w =
     subprocess_run (remote_cmd_line cfg cmd detached_session) (prepare_subprocess_kwargs kwargs) w \<and>
   remote_cmd_line example_vm ''echo hi'' (Some ''sess'') =
     ''gcloud compute -q ssh vm1 --project=my-project --zone=us-east5-a --command='' @ [dq] @
     ''sudo screen -dmS sess sudo -i bash -c '' @ [sq] @ ''pushd /root && echo hi'' @ [sq] @ [dq] \<and>
   sh_word DoubleQuoted
     (''sudo screen -dmS sess sudo -i bash -c '' @
      prepare_cmd_for_gcloud_ssh (''pushd /root && '' @ ''echo hi'') @ [dq]) =
     Some (''sudo screen -dmS sess sudo -i bash -c '' @ [sq] @ ''pushd /root && echo hi'' @ [sq]) \<and>
   sh_word Unquoted (prepare_cmd_for_gcloud_ssh (''pushd /root && '' @ ''echo hi'')) =
     Some ''pushd /root && echo hi''"
  by (simp add: remote_cmd_line_def CPUJob_execute_remote_cmd_def example_vm_def
        prepare_cmd_for_gcloud_ssh_def shlex_quote_def safe_char_def split: option.splits)

section \<open>The docker command line\<close>

text \<open>Reading a line as fields: a space ends a field, a string without spaces extends it.\<close>

lemma fields_sep: "fields cur (x @ CHR '' '' # rest) = fields cur x @ fields [] rest"
  by (induction x arbitrary: cur) auto

lemma fields_plain: "CHR '' '' \<notin> set t \<Longrightarrow> fields cur (t @ rest) = fields (cur @ t) rest"
  by (induction t arbitrary: cur) auto

lemma fields_word: "plain_word t \<Longrightarrow> fields [] t = [t]"
  using fields_plain [of t "[]" "[]"] by (simp add: plain_word_def)

lemma fields_join: "fields [] (join '' '' xs) = concat (map (fields []) xs)"
proof (induction "'' ''" xs rule: join.induct)
  case 1
  then show ?case by simp
next
  case (2 x)
  then show ?case by simp
next
  case (3 x y ys)
  then show ?case using fields_sep [of "[]" x "join '' '' (y # ys)"] by simp
qed

lemma docker_command_head:
  "docker_command cmd image_name detached_session env volumes extra_docker_flags =
     docker_run_head image_name detached_session env volumes extra_docker_flags @
     '' /bin/bash -c '' @ prepare_cmd_for_gcloud_ssh (''pushd /root && '' @ cmd)"
  by (simp add: docker_command_def docker_run_head_def Let_def)

lemma fields_env_flags:
  "list_all plain_word es \<Longrightarrow>
   concat (map (fields []) (map (\<lambda>e. ''-e '' @ e) es)) = concat (map (\<lambda>e. [''-e'', e]) es)"
  by (induction es) (simp_all add: fields_word)

lemma fields_volume_flags:
  "list_all (\<lambda>(src, dst). CHR '' '' \<notin> set src \<and> CHR '' '' \<notin> set dst) vs \<Longrightarrow>
   concat (map (fields []) (map (\<lambda>(src, dst). ''-v '' @ src @ '':'' @ dst) vs)) =
   concat (map (\<lambda>(src, dst). [''-v'', src @ '':'' @ dst]) vs)"
  using fields_plain [of _ "[]" "[]"]
  by (induction vs) auto

lemma fields_words: "list_all plain_word xs \<Longrightarrow> concat (map (fields []) xs) = xs"
  by (induction xs) (simp_all add: fields_word)

lemma fields_detached:
  "(case detached_session of None \<Rightarrow> True | Some s \<Rightarrow> CHR '' '' \<notin> set s) \<Longrightarrow>
   fields [] (case detached_session of None \<Rightarrow> []
              | Some s \<Rightarrow> if s \<noteq> [] then ''-d --name='' @ s else []) =
   (case detached_session of None \<Rightarrow> []
    | Some s \<Rightarrow> if s \<noteq> [] then [''-d'', ''--name='' @ s] else [])"
  using fields_plain [of "the detached_session" "''--name=''" "[]"]
  by (auto split: option.splits)

lemma docker_run_head_fields:
  assumes "plain_word image_name"
    and "case detached_session of None \<Rightarrow> True | Some s \<Rightarrow> CHR '' '' \<notin> set s"
    and "list_all plain_word (or_empty env)"
    and "list_all (\<lambda>(src, dst). CHR '' '' \<notin> set src \<and> CHR '' '' \<notin> set dst) (or_empty volumes)"
    and "list_all plain_word (or_empty extra_docker_flags)"
  shows "fields [] (docker_run_head image_name detached_session env volumes extra_docker_flags) =
           [''docker'', ''run'', ''--rm'', ''--privileged'', ''-u'', ''root'', ''--network=host''] @
           (case detached_session of None \<Rightarrow> []
            | Some s \<Rightarrow> if s \<noteq> [] then [''-d'', ''--name='' @ s] else []) @
           concat (map (\<lambda>e. [''-e'', e]) (or_empty env)) @
           concat (map (\<lambda>(src, dst). [''-v'', src @ '':'' @ dst]) (or_empty volumes)) @
           or_empty extra_docker_flags @
           [image_name]"
proof -
  let ?D = "case detached_session of None \<Rightarrow> []
            | Some s \<Rightarrow> if s \<noteq> [] then ''-d --name='' @ s else []"
  let ?E = "join '' '' (map (\<lambda>e. ''-e '' @ e) (or_empty env))"
  let ?V = "join '' '' (map (\<lambda>(src, dst). ''-v '' @ src @ '':'' @ dst) (or_empty volumes))"
  let ?X = "join '' '' (or_empty extra_docker_flags)"
  have rest: "fields [] (?D @ CHR '' '' # ?E @ CHR '' '' # ?V @ CHR '' '' # ?X @ CHR '' '' # image_name) =
        fields [] ?D @ fields [] ?E @ fields [] ?V @ fields [] ?X @ fields [] image_name"
    by (simp only: fields_sep)
  have head: "fields [] (docker_run_head image_name detached_session env volumes extra_docker_flags) =
        [''docker'', ''run'', ''--rm'', ''--privileged'', ''-u'', ''root'', ''--network=host''] @
        fields [] (?D @ CHR '' '' # ?E @ CHR '' '' # ?V @ CHR '' '' # ?X @ CHR '' '' # image_name)"
    by (simp add: docker_run_head_def)
  have D: "fields [] ?D = (case detached_session of None \<Rightarrow> []
            | Some s \<Rightarrow> if s \<noteq> [] then [''-d'', ''--name='' @ s] else [])"
    using assms(2) by (rule fields_detached)
  have E: "fields [] ?E = concat (map (\<lambda>e. [''-e'', e]) (or_empty env))"
    using assms(3) by (simp only: fields_join fields_env_flags)
  have V: "fields [] ?V =
        concat (map (\<lambda>(src, dst). [''-v'', src @ '':'' @ dst]) (or_empty volumes))"
    using assms(4) by (simp only: fields_join fields_volume_flags)
  have X: "fields [] ?X = or_empty extra_docker_flags"
    using assms(5) by (simp only: fields_join fields_words)
  have I: "fields [] image_name = [image_name]"
    using assms(1) by (rule fields_word)
  show ?thesis
    unfolding head rest D E V X I by simp
qed

text \<open>
  Claim C9. \<^verbatim>\<open>docker_command\<close> returns
  \<^verbatim>\<open>docker run --rm --privileged -u root --network=host [-d --name=<session>] [-e VAR]... [-v src:dst]... [extra flags] <image> /bin/bash -c <escaped-cmd>\<close>:
  the parts stand in this order, an absent part leaves only its separating space,
  and read as fields the line has one \<^verbatim>\<open>-e VAR\<close> per environment variable, one
  \<^verbatim>\<open>-v src:dst\<close> per volume entry and \<^verbatim>\<open>-d --name=<session>\<close> exactly when a non-empty
  session name is given.
\<close>

theorem docker_command_form:
  "docker_command cmd image_name detached_session env volumes extra_docker_flags =
     docker_run_head image_name detached_session env volumes extra_docker_flags @
     '' /bin/bash -c '' @ prepare_cmd_for_gcloud_ssh (''pushd /root && '' @ cmd) \<and>
   docker_run_head image_name detached_session env volumes extra_docker_flags =
     ''docker run --rm --privileged -u root --network=host '' @
     (case detached_session of None \<Rightarrow> [] | Some s \<Rightarrow> if s \<noteq> [] then ''-d --name='' @ s else []) @
     '' '' @ join '' '' (map (\<lambda>e. ''-e '' @ e) (or_empty env)) @
     '' '' @ join '' '' (map (\<lambda>(src, dst). ''-v '' @ src @ '':'' @ dst) (or_empty volumes)) @
     '' '' @ join '' '' (or_empty extra_docker_flags) @
     '' '' @ image_name \<and>
   (plain_word image_name \<and>
    (case detached_session of None \<Rightarrow> True | Some s \<Rightarrow> CHR '' '' \<notin> set s) \<and>
    list_all plain_word (or_empty env) \<and>
    list_all (\<lambda>(src, dst). CHR '' '' \<notin> set src \<and> CHR '' '' \<notin> set dst) (or_empty volumes) \<and>
    list_all plain_word (or_empty extra_docker_flags) \<longrightarrow>
    fields [] (docker_run_head image_name detached_session env volumes extra_docker_flags) =
      [''docker'', ''run'', ''--rm'', ''--privileged'', ''-u'', ''root'', ''--network=host''] @
      (case detached_session of None \<Rightarrow> []
       | Some s \<Rightarrow> if s \<noteq> [] then [''-d'', ''--name='' @ s] else []) @
      concat (map (\<lambda>e. [''-e'', e]) (or_empty env)) @
      concat (map (\<lambda>(src, dst). [''-v'', src @ '':'' @ dst]) (or_empty volumes)) @
      or_empty extra_docker_flags @
      [image_name])"
  using docker_command_head docker_run_head_fields
  by (simp add: docker_run_head_def)

theorem docker_command_form_witness:
  "docker_command ''echo hi'' ''img:1'' (Some ''sess'') (Some [''A'', ''B''])
     (Some [(''/a'', ''/b'')]) (Some [''--gpus=all'']) =
     ''docker run --rm --privileged -u root --network=host -d --name=sess -e A -e B -v /a:/b --gpus=all img:1 /bin/bash -c '' @
     [sq] @ ''pushd /root && echo hi'' @ [sq] \<and>
   fields [] (docker_run_head ''img:1'' (Some ''sess'') (Some [''A'', ''B''])
     (Some [(''/a'', ''/b'')]) (Some [''--gpus=all''])) =
     [''docker'', ''run'', ''--rm'', ''--privileged'', ''-u'', ''root'', ''--network=host'',
      ''-d'', ''--name=sess'', ''-e'', ''A'', ''-e'', ''B'', ''-v'', ''/a:/b'', ''--gpus=all'', ''img:1''] \<and>
   docker_command ''echo hi'' ''img:1'' None None None None =
     ''docker run --rm --privileged -u root --network=host     img:1 /bin/bash -c '' @
     [sq] @ ''pushd /root && echo hi'' @ [sq] \<and>
   fields [] (docker_run_head ''img:1'' None None None None) =
     [''docker'', ''run'', ''--rm'', ''--privileged'', ''-u'', ''root'', ''--network=host'', ''img:1'']"
  using docker_command_form [of "''echo hi''" "''img:1''" "Some ''sess''" "Some [''A'', ''B'']"
          "Some [(''/a'', ''/b'')]" "Some [''--gpus=all'']"]
        docker_command_form [of "''echo hi''" "''img:1''" None None None None]
  by (simp add: plain_word_def prepare_cmd_for_gcloud_ssh_def shlex_quote_def safe_char_def
        docker_run_head_def)

section \<open>The escaped command read by the shells\<close>

text \<open>
  Between double quotes the escapes of \<^verbatim>\<open>_prepare_cmd_for_gcloud_ssh\<close> give back a text
  without backslash and backquote; between single quotes the text written by
  \<^verbatim>\<open>shlex.quote\<close> gives back any text.
\<close>

lemma sh_word_dq_escaped:
  "bs \<notin> set t \<Longrightarrow> backtick \<notin> set t \<Longrightarrow>
   sh_word DoubleQuoted (str_replace dollar [bs, dollar] (str_replace dq [bs, dq] t) @ rest)
     = map_option ((@) t) (sh_word DoubleQuoted rest)"
proof (induction t)
  case Nil
  then show ?case by (simp add: option.map_ident)
next
  case (Cons c t)
  then show ?case
    by (cases "c = dq"; cases "c = dollar") (auto simp: option.map_comp comp_def)
qed

lemma sh_word_sq_body:
  "sh_word SingleQuoted (str_replace sq [sq, dq, sq, dq, sq] s @ sq # rest)
     = map_option ((@) s) (sh_word Unquoted rest)"
proof (induction s)
  case Nil
  then show ?case by (simp add: option.map_ident)
next
  case (Cons c s)
  then show ?case by (auto simp: option.map_comp comp_def)
qed

lemma safe_char_not_special:
  "safe_char c \<Longrightarrow> c \<noteq> sq \<and> c \<noteq> dq \<and> c \<noteq> bs \<and> c \<noteq> dollar \<and> c \<noteq> backtick"
  by (auto simp: safe_char_def)

lemma sh_word_unquoted_safe:
  "list_all safe_char s \<Longrightarrow>
   sh_word Unquoted (s @ rest) = map_option ((@) s) (sh_word Unquoted rest)"
proof (induction s)
  case Nil
  then show ?case by (simp add: option.map_ident)
next
  case (Cons c s)
  have "safe_char c" using Cons.prems by simp
  with safe_char_not_special [of c] Cons show ?case
    by (auto simp: option.map_comp comp_def)
qed

lemma sh_word_shlex_quote: "sh_word Unquoted (shlex_quote s) = Some s"
proof (cases "s = []")
  case True
  then show ?thesis by (simp add: shlex_quote_def)
next
  case False
  show ?thesis
  proof (cases "list_all safe_char s")
    case True
    with sh_word_unquoted_safe [of s "[]"] False show ?thesis
      by (simp add: shlex_quote_def)
  next
    case unsafe: False
    with sh_word_sq_body [of s "[]"] False show ?thesis
      by (simp add: shlex_quote_def)
  qed
qed

lemma set_str_replace: "set (str_replace a n s) \<subseteq> set s \<union> set n"
  by (induction s) auto

lemma set_shlex_quote: "set (shlex_quote s) \<subseteq> set s \<union> {sq, dq}"
  using set_str_replace [of sq "[sq, dq, sq, dq, sq]" s]
  by (auto simp: shlex_quote_def)

text \<open>
  A command without backslash and backquote does come back unchanged from the two
  shells.
\<close>

lemma prepare_cmd_roundtrip:
  assumes "bs \<notin> set cmd" and "backtick \<notin> set cmd"
  shows "shell_roundtrip cmd = Some cmd"
proof -
  have "bs \<notin> set (shlex_quote cmd)" "backtick \<notin> set (shlex_quote cmd)"
    using assms set_shlex_quote [of cmd] by auto
  then have "sh_word DoubleQuoted (prepare_cmd_for_gcloud_ssh cmd @ [dq]) = Some (shlex_quote cmd)"
    using sh_word_dq_escaped [of "shlex_quote cmd" "[dq]"]
    by (simp add: prepare_cmd_for_gcloud_ssh_def)
  then show ?thesis
    by (simp add: shell_roundtrip_def sh_word_shlex_quote)
qed

text \<open>
  Claim C5 says that every escaped command comes back unchanged. The escape handles
  double quotes and dollar signs only: of the two backslashes of
  \<^verbatim>\<open>echo a\\b\<close> the local shell keeps one, and a backquote starts a command
  substitution in the local shell.
\<close>

theorem prepare_cmd_roundtrip_loses_backslash:
  "shell_roundtrip (''echo a'' @ [bs, bs] @ ''b'') = Some (''echo a'' @ [bs] @ ''b'') \<and>
   shell_roundtrip (''echo a'' @ [bs, bs] @ ''b'') \<noteq> Some (''echo a'' @ [bs, bs] @ ''b'') \<and>
   shell_roundtrip (''echo '' @ [backtick] @ ''hostname'' @ [backtick]) = None"
  by (simp add: shell_roundtrip_def prepare_cmd_for_gcloud_ssh_def shlex_quote_def safe_char_def)

end
